theory Spec2Isabelle
  imports Main "HOL-Library.Sublist"
begin

section \<open>Values and strings\<close>

text \<open>
  The tool arguments arrive as an untyped object (\<open>request.params.arguments as any\<close>).
  Every declared argument is a string; a key that is absent reads as \<open>undefined\<close>.
  A JavaScript string is modelled as a \<open>string\<close>, one \<open>char\<close> per code unit.
\<close>

datatype jsval = JUndefined | JString string

text \<open>The coercion applied by template literals, \<open>+\<close> on strings, \<open>RegExp.test\<close> and
  \<open>String.includes\<close>.\<close>

fun ToString :: "jsval \<Rightarrow> string" where
  "ToString JUndefined = ''undefined''"
| "ToString (JString s) = s"

definition squote :: char where
  "squote = CHR 0x27"

definition backslash :: char where
  "backslash = CHR 0x5C"

text \<open>\<open>\w\<close> of a regular expression without flags: ASCII letters, digits, underscore.\<close>

definition word_char :: "char \<Rightarrow> bool" where
  "word_char c = (c \<in> set (''ABCDEFGHIJKLMNOPQRSTUVWXYZ'' @ ''abcdefghijklmnopqrstuvwxyz''
      @ ''0123456789_''))"

text \<open>The test \<open>/^[\w-]{20,}$/.test(nameOrId)\<close> (index.ts line 33). Without the
  \<open>m\<close> flag \<open>^\<close> and \<open>$\<close> match only at the two ends of the input.\<close>

definition id_shape :: "string \<Rightarrow> bool" where
  "id_shape s = (20 \<le> length s \<and> list_all (\<lambda>c. word_char c \<or> c = CHR ''-'') s)"

text \<open>\<open>s.replace(pat, rep)\<close> with a string pattern: only the first occurrence is
  replaced. The replacement strings of the source contain no \<open>$\<close>.\<close>

fun replace_first :: "string \<Rightarrow> string \<Rightarrow> string \<Rightarrow> string" where
  "replace_first pat rep [] = (if pat = [] then rep else [])"
| "replace_first pat rep (c # cs) =
     (if prefix pat (c # cs) then rep @ drop (length pat) (c # cs)
      else c # replace_first pat rep cs)"

text \<open>\<open>s.replace(/c/g, rep)\<close> for a pattern that is one literal character.\<close>

fun replace_char_g :: "char \<Rightarrow> string \<Rightarrow> string \<Rightarrow> string" where
  "replace_char_g c rep [] = []"
| "replace_char_g c rep (x # xs) =
     (if x = c then rep @ replace_char_g c rep xs else x # replace_char_g c rep xs)"

text \<open>\<open>content.includes(target)\<close>: does \<open>target\<close> occur in \<open>content\<close> as a literal
  substring.\<close>

fun includes_str :: "string \<Rightarrow> string \<Rightarrow> bool" where
  "includes_str [] t = (t = [])"
| "includes_str (c # cs) t = (prefix t (c # cs) \<or> includes_str cs t)"

text \<open>The characters with a special meaning in a regular-expression pattern.\<close>

definition is_meta :: "char \<Rightarrow> bool" where
  "is_meta c = (c \<in> set (backslash # ''^$.|?*+()[]{}''))"

text \<open>
  \<open>content.replace(new RegExp(t, "g"), "")\<close> for a pattern \<open>t\<close> without
  metacharacters: the pattern matches exactly the text \<open>t\<close>. The scan goes left to right;
  after a match it resumes behind the match, so the matches removed are the leftmost
  non-overlapping ones, and the text is scanned once. The empty pattern matches the empty
  string at every position and removes nothing.
\<close>

function remove_all :: "string \<Rightarrow> string \<Rightarrow> string" where
  "remove_all t [] = []"
| "remove_all t (c # cs) =
     (if t \<noteq> [] \<and> prefix t (c # cs) then remove_all t (drop (length t) (c # cs))
      else c # remove_all t cs)"
  by pat_completeness auto
termination
  by (relation "measure (\<lambda>(t, s). length s)") auto

text \<open>The number of matches that scan finds.\<close>

function count_matches :: "string \<Rightarrow> string \<Rightarrow> nat" where
  "count_matches t [] = (if t = [] then 1 else 0)"
| "count_matches t (c # cs) =
     (if t = [] then Suc (count_matches t cs)
      else if prefix t (c # cs) then Suc (count_matches t (drop (length t) (c # cs)))
      else count_matches t cs)"
  by pat_completeness auto
termination
  by (relation "measure (\<lambda>(t, s). length s)") auto

text \<open>The pieces of the text between the matches, in order; \<open>remove_all\<close> joins them.\<close>

function pieces :: "string \<Rightarrow> string \<Rightarrow> string list" where
  "pieces t [] = [[]]"
| "pieces t (c # cs) =
     (if t \<noteq> [] \<and> prefix t (c # cs) then [] # pieces t (drop (length t) (c # cs))
      else (case pieces t cs of [] \<Rightarrow> [[c]] | p # ps \<Rightarrow> (c # p) # ps))"
  by pat_completeness auto
termination
  by (relation "measure (\<lambda>(t, s). length s)") auto

text \<open>The number of positions at which \<open>t\<close> occurs in the text, overlaps included.\<close>

fun occurrences :: "string \<Rightarrow> string \<Rightarrow> nat" where
  "occurrences t [] = (if t = [] then 1 else 0)"
| "occurrences t (c # cs) = (if prefix t (c # cs) then 1 else 0) + occurrences t cs"

text \<open>\<open>parts.join(sep)\<close>.\<close>

fun join_with :: "string \<Rightarrow> string list \<Rightarrow> string" where
  "join_with sep [] = []"
| "join_with sep [p] = p"
| "join_with sep (p # ps) = p @ sep @ join_with sep ps"

text \<open>The decimal rendering of a length inside a template literal.\<close>

fun show_nat :: "nat \<Rightarrow> string" where
  "show_nat n =
     (if n < 10 then [char_of (48 + n)] else show_nat (n div 10) @ [char_of (48 + n mod 10)])"

section \<open>The remote storage API and the platform\<close>

record drive_file =
  file_id :: string
  file_name :: string
  file_mimeType :: string

record list_params =
  list_q :: "string option"
  list_pageSize :: nat
  list_fields :: string
  list_pageToken :: "string option"

record list_response =
  resp_files :: "drive_file list option"
  resp_nextPageToken :: "string option"

text \<open>
  One constructor per request the handlers send:
  \<open>files.list\<close>, \<open>files.get\<close> (file id, \<open>alt\<close>, response type), \<open>files.export\<close>
  (file id, target mime type), \<open>files.create\<close> (name, mime type, body), \<open>files.update\<close>
  (file id, media mime type, body) and \<open>files.delete\<close>.
\<close>

datatype api_call =
    FilesList list_params
  | FilesGet string "string option" string
  | FilesExport string string
  | FilesCreate jsval string string
  | FilesUpdate string string string
  | FilesDelete string

type_synonym history = "api_call list"

text \<open>
  The provider is outside the program. It is a parameter: for each method, the answer (or
  the failure message) as a function of the requests performed so far and of the request.
  \<open>files.get\<close> answers with the metadata's \<open>mimeType\<close> when the response type is
  \<open>json\<close> and with the bytes of the body when it is \<open>arraybuffer\<close>.
\<close>

record drive =
  files_list :: "history \<Rightarrow> list_params \<Rightarrow> string + list_response"
  files_get_meta :: "history \<Rightarrow> string \<Rightarrow> string + string option"
  files_get_data :: "history \<Rightarrow> string \<Rightarrow> string option \<Rightarrow> string + string"
  files_export :: "history \<Rightarrow> string \<Rightarrow> string \<Rightarrow> string + string"
  files_create :: "history \<Rightarrow> jsval \<Rightarrow> string \<Rightarrow> string \<Rightarrow> string + jsval"
  files_update :: "history \<Rightarrow> string \<Rightarrow> string \<Rightarrow> string \<Rightarrow> string + unit"
  files_delete :: "history \<Rightarrow> string \<Rightarrow> string + unit"

text \<open>
  Library functions the handlers call: \<open>lookup\<close> of the mime-types package, the
  regular-expression engine for patterns that contain metacharacters (\<open>None\<close> when the
  pattern does not compile), \<open>Buffer.from(data).toString("base64")\<close>,
  \<open>Buffer.from(data).toString("utf-8")\<close> and \<open>Buffer.from(text)\<close>.
\<close>

record platform =
  mime_lookup :: "jsval \<Rightarrow> string option"
  regexp_remove_g :: "string \<Rightarrow> string \<Rightarrow> string option"
  base64 :: "string \<Rightarrow> string"
  utf8_decode :: "string \<Rightarrow> string"
  utf8_encode :: "string \<Rightarrow> string"

datatype error =
    NotFound string
  | Ambiguous "(string \<times> string) list"
  | TextNotFound string
  | ToolNotFound
  | TypeError
  | SyntaxError
  | RemoteFailure string

text \<open>
  The error messages and the confirmation texts of the source are Korean sentences with
  values spliced in. They are represented by a constructor carrying the spliced values:
  \<open>NotFound\<close> the attempted name, \<open>Ambiguous\<close> the name and id of every listed file in
  order (one bulleted line each in the message), \<open>TextNotFound\<close> the target text.
\<close>

type_synonym 'a io = "history \<Rightarrow> (error + 'a) \<times> history"

definition remote :: "(string + 'a) \<Rightarrow> api_call \<Rightarrow> 'a io" where
  "remote answer c h =
     ((case answer of Inl m \<Rightarrow> Inl (RemoteFailure m) | Inr r \<Rightarrow> Inr r), h @ [c])"

section \<open>Identifier resolver\<close>

definition name_lookup :: "string \<Rightarrow> list_params" where
  "name_lookup nameOrId =
     \<lparr> list_q = Some (''name = '' @ [squote] @ nameOrId @ [squote]),
       list_pageSize = 5,
       list_fields = ''files(id, name)'',
       list_pageToken = None \<rparr>"

text \<open>\<open>resolveFileId\<close>, index.ts lines 32 to 54.\<close>

definition resolveFileId :: "drive \<Rightarrow> string \<Rightarrow> string io" where
  "resolveFileId D nameOrId h =
     (if id_shape nameOrId then (Inr nameOrId, h)
      else
        (case remote (files_list D h (name_lookup nameOrId)) (FilesList (name_lookup nameOrId)) h of
           (Inl e, h') \<Rightarrow> (Inl e, h')
         | (Inr searchRes, h') \<Rightarrow>
             (let files = (case resp_files searchRes of None \<Rightarrow> [] | Some fs \<Rightarrow> fs) in
              if length files = 0 then (Inl (NotFound nameOrId), h')
              else if length files > 1 then
                (Inl (Ambiguous (map (\<lambda>file. (file_name file, file_id file)) files)), h')
              else (Inr (file_id (files ! 0)), h'))))"

section \<open>Resource catalog adapter\<close>

record resource =
  res_uri :: string
  res_mimeType :: string
  res_name :: string

text \<open>The list-resources handler, index.ts lines 61 to 81. A cursor is passed on when it
  is truthy, that is present and not empty.\<close>

definition ListResources :: "drive \<Rightarrow> string option \<Rightarrow> (resource list \<times> string option) io" where
  "ListResources D cursor h =
     (let params = \<lparr> list_q = None, list_pageSize = 10,
                     list_fields = ''nextPageToken, files(id, name, mimeType)'',
                     list_pageToken = (case cursor of None \<Rightarrow> None
                                       | Some c \<Rightarrow> if c = [] then None else Some c) \<rparr> in
      case remote (files_list D h params) (FilesList params) h of
        (Inl e, h') \<Rightarrow> (Inl e, h')
      | (Inr res, h') \<Rightarrow>
          (let files = (case resp_files res of None \<Rightarrow> [] | Some fs \<Rightarrow> fs) in
           (Inr (map (\<lambda>file. \<lparr> res_uri = ''gdrive:///'' @ file_id file,
                                  res_mimeType = file_mimeType file,
                                  res_name = file_name file \<rparr>) files,
                 resp_nextPageToken res), h')))"

text \<open>One entry of \<open>contents\<close>: uri, mime type and either \<open>text\<close> or \<open>blob\<close>.\<close>

datatype resource_content =
    TextContent string string string
  | BlobContent string string string

text \<open>The \<open>switch\<close> of index.ts lines 91 to 106.\<close>

definition exportMimeType :: "string \<Rightarrow> string" where
  "exportMimeType mimeType =
     (if mimeType = ''application/vnd.google-apps.document'' then ''text/markdown''
      else if mimeType = ''application/vnd.google-apps.spreadsheet'' then ''text/csv''
      else if mimeType = ''application/vnd.google-apps.presentation'' then ''text/plain''
      else if mimeType = ''application/vnd.google-apps.drawing'' then ''image/png''
      else ''text/plain'')"

text \<open>The body of the read-resource handler once the mime type is known, index.ts lines
  89 to 122.\<close>

definition read_by_mime ::
  "platform \<Rightarrow> drive \<Rightarrow> string \<Rightarrow> string \<Rightarrow> string \<Rightarrow> resource_content io" where
  "read_by_mime P D uri fileId mimeType h =
     (if prefix ''application/vnd.google-apps'' mimeType then
        (case remote (files_export D h fileId (exportMimeType mimeType))
                (FilesExport fileId (exportMimeType mimeType)) h of
           (Inl e, h') \<Rightarrow> (Inl e, h')
         | (Inr res, h') \<Rightarrow> (Inr (TextContent uri (exportMimeType mimeType) res), h'))
      else
        (case remote (files_get_data D h fileId None) (FilesGet fileId None ''arraybuffer'') h of
           (Inl e, h') \<Rightarrow> (Inl e, h')
         | (Inr res, h') \<Rightarrow>
             (if prefix ''text/'' mimeType \<or> mimeType = ''application/json'' then
                (Inr (TextContent uri mimeType (utf8_decode P res)), h')
              else (Inr (BlobContent uri mimeType (base64 P res)), h'))))"

text \<open>The read-resource handler, index.ts lines 84 to 123.\<close>

definition ReadResource :: "platform \<Rightarrow> drive \<Rightarrow> string \<Rightarrow> resource_content io" where
  "ReadResource P D uri h =
     (case resolveFileId D (replace_first ''gdrive:///'' [] uri) h of
        (Inl e, h1) \<Rightarrow> (Inl e, h1)
      | (Inr fileId, h1) \<Rightarrow>
          (case remote (files_get_meta D h1 fileId) (FilesGet fileId None ''json'') h1 of
             (Inl e, h2) \<Rightarrow> (Inl e, h2)
           | (Inr m, h2) \<Rightarrow>
               read_by_mime P D uri fileId
                 (case m of None \<Rightarrow> ''application/octet-stream''
                  | Some s \<Rightarrow> if s = [] then ''application/octet-stream'' else s) h2))"

section \<open>Tool dispatcher\<close>

text \<open>
  The text of a successful result. \<open>Text\<close> carries the text itself; the other
  constructors stand for the confirmation sentences and carry the id spliced into them.
\<close>

datatype tool_text =
    Text string
  | UploadDone jsval
  | UpdateDone string
  | DeleteDone string
  | AppendDone string
  | RemoveDone string

type_synonym arguments = "(string \<Rightarrow> jsval) option"

text \<open>The list-tools handler, index.ts lines 126 to 210: the name of each registered
  tool with the \<open>required\<close> keys of its input schema.\<close>

definition ListTools :: "(string \<times> string list) list" where
  "ListTools =
     [(''search'', [''query'']),
      (''upload_file_with_content'', [''name'', ''content'']),
      (''update_file_content'', [''fileId'', ''newContent'']),
      (''delete_file'', [''fileId'']),
      (''read_file_content'', [''filename'']),
      (''append_file_content'', [''filename'', ''appendText'']),
      (''delete_from_file_content'', [''filename'', ''targetText''])]"

text \<open>\<open>guessMimeType\<close>, index.ts lines 57 to 59.\<close>

definition guessMimeType :: "platform \<Rightarrow> jsval \<Rightarrow> string" where
  "guessMimeType P filename =
     (case mime_lookup P filename of
        None \<Rightarrow> ''application/octet-stream''
      | Some m \<Rightarrow> if m = [] then ''application/octet-stream'' else m)"

definition search_params :: "string \<Rightarrow> list_params" where
  "search_params escapedQuery =
     \<lparr> list_q = Some (''fullText contains '' @ [squote] @ escapedQuery @ [squote]),
       list_pageSize = 10,
       list_fields = ''files(id, name, mimeType, modifiedTime, size)'',
       list_pageToken = None \<rparr>"

text \<open>The branch \<open>search\<close>, index.ts lines 216 to 228. \<open>query.replace\<close> on an
  undefined query throws a TypeError.\<close>

definition tool_search :: "drive \<Rightarrow> arguments \<Rightarrow> tool_text io" where
  "tool_search D arguments h =
     (case arguments of
        None \<Rightarrow> (Inl TypeError, h)
      | Some args \<Rightarrow>
          (case args ''query'' of
             JUndefined \<Rightarrow> (Inl TypeError, h)
           | JString query \<Rightarrow>
               (let escapedQuery =
                      replace_char_g squote [backslash, squote]
                        (replace_char_g backslash [backslash, backslash] query) in
                case remote (files_list D h (search_params escapedQuery))
                       (FilesList (search_params escapedQuery)) h of
                  (Inl e, h') \<Rightarrow> (Inl e, h')
                | (Inr res, h') \<Rightarrow>
                    (Inr (Text (''Found ''
                        @ show_nat (case resp_files res of None \<Rightarrow> 0 | Some fs \<Rightarrow> length fs)
                        @ '' files:\<newline>''
                        @ (case resp_files res of
                             None \<Rightarrow> ''undefined''
                           | Some fs \<Rightarrow>
                               join_with ''\<newline>'' (map (\<lambda>file. file_name file @ '' (''
                                                  @ file_mimeType file @ '')'') fs)))),
                     h'))))"

text \<open>The branch \<open>upload_file_with_content\<close>, index.ts lines 229 to 239.
  \<open>Buffer.from\<close> of an undefined content throws a TypeError.\<close>

definition tool_upload :: "platform \<Rightarrow> drive \<Rightarrow> arguments \<Rightarrow> tool_text io" where
  "tool_upload P D arguments h =
     (case arguments of
        None \<Rightarrow> (Inl TypeError, h)
      | Some args \<Rightarrow>
          (let mimeType = guessMimeType P (args ''name'') in
           case args ''content'' of
             JUndefined \<Rightarrow> (Inl TypeError, h)
           | JString content \<Rightarrow>
               (case remote (files_create D h (args ''name'') mimeType (utf8_encode P content))
                       (FilesCreate (args ''name'') mimeType (utf8_encode P content)) h of
                  (Inl e, h') \<Rightarrow> (Inl e, h')
                | (Inr new_id, h') \<Rightarrow> (Inr (UploadDone new_id), h'))))"

text \<open>The branch \<open>update_file_content\<close>, index.ts lines 240 to 254. Inside
  \<open>resolveFileId\<close> an undefined argument is only ever coerced to a string.\<close>

definition tool_update :: "platform \<Rightarrow> drive \<Rightarrow> arguments \<Rightarrow> tool_text io" where
  "tool_update P D arguments h =
     (case arguments of
        None \<Rightarrow> (Inl TypeError, h)
      | Some args \<Rightarrow>
          (case resolveFileId D (ToString (args ''fileId'')) h of
             (Inl e, h1) \<Rightarrow> (Inl e, h1)
           | (Inr fileId, h1) \<Rightarrow>
               (case args ''newContent'' of
                  JUndefined \<Rightarrow> (Inl TypeError, h1)
                | JString newContent \<Rightarrow>
                    (case remote (files_update D h1 fileId ''text/plain'' (utf8_encode P newContent))
                            (FilesUpdate fileId ''text/plain'' (utf8_encode P newContent)) h1 of
                       (Inl e, h2) \<Rightarrow> (Inl e, h2)
                     | (Inr _, h2) \<Rightarrow> (Inr (UpdateDone fileId), h2)))))"

text \<open>The branch \<open>delete_file\<close>, index.ts lines 255 to 260.\<close>

definition tool_delete :: "drive \<Rightarrow> arguments \<Rightarrow> tool_text io" where
  "tool_delete D arguments h =
     (case arguments of
        None \<Rightarrow> (Inl TypeError, h)
      | Some args \<Rightarrow>
          (case resolveFileId D (ToString (args ''fileId'')) h of
             (Inl e, h1) \<Rightarrow> (Inl e, h1)
           | (Inr fileId, h1) \<Rightarrow>
               (case remote (files_delete D h1 fileId) (FilesDelete fileId) h1 of
                  (Inl e, h2) \<Rightarrow> (Inl e, h2)
                | (Inr _, h2) \<Rightarrow> (Inr (DeleteDone fileId), h2))))"

text \<open>The branch \<open>read_file_content\<close>, index.ts lines 261 to 265.\<close>

definition tool_read :: "platform \<Rightarrow> drive \<Rightarrow> arguments \<Rightarrow> tool_text io" where
  "tool_read P D arguments h =
     (case arguments of
        None \<Rightarrow> (Inl TypeError, h)
      | Some args \<Rightarrow>
          (case resolveFileId D (ToString (args ''filename'')) h of
             (Inl e, h1) \<Rightarrow> (Inl e, h1)
           | (Inr fileId, h1) \<Rightarrow>
               (case remote (files_get_data D h1 fileId (Some ''media''))
                       (FilesGet fileId (Some ''media'') ''arraybuffer'') h1 of
                  (Inl e, h2) \<Rightarrow> (Inl e, h2)
                | (Inr fileRes, h2) \<Rightarrow> (Inr (Text (utf8_decode P fileRes)), h2))))"

text \<open>The branch \<open>append_file_content\<close>, index.ts lines 266 to 275.\<close>

definition tool_append :: "platform \<Rightarrow> drive \<Rightarrow> arguments \<Rightarrow> tool_text io" where
  "tool_append P D arguments h =
     (case arguments of
        None \<Rightarrow> (Inl TypeError, h)
      | Some args \<Rightarrow>
          (case resolveFileId D (ToString (args ''filename'')) h of
             (Inl e, h1) \<Rightarrow> (Inl e, h1)
           | (Inr fileId, h1) \<Rightarrow>
               (case remote (files_get_data D h1 fileId (Some ''media''))
                       (FilesGet fileId (Some ''media'') ''arraybuffer'') h1 of
                  (Inl e, h2) \<Rightarrow> (Inl e, h2)
                | (Inr fileRes, h2) \<Rightarrow>
                    (let currentContent = utf8_decode P fileRes;
                         updatedContent = currentContent @ ''\<newline>''
                                            @ ToString (args ''appendText'') in
                     case remote (files_update D h2 fileId ''text/plain'' (utf8_encode P updatedContent))
                            (FilesUpdate fileId ''text/plain'' (utf8_encode P updatedContent)) h2 of
                       (Inl e, h3) \<Rightarrow> (Inl e, h3)
                     | (Inr _, h3) \<Rightarrow> (Inr (AppendDone fileId), h3)))))"

text \<open>
  \<open>currentContent.replace(new RegExp(targetText, "g"), "")\<close>, index.ts line 283.
  An undefined pattern is the empty pattern. A pattern without metacharacters is matched
  as the text it is; any other pattern is left to the regular-expression engine, which
  may reject it.
\<close>

definition regexp_remove :: "platform \<Rightarrow> jsval \<Rightarrow> string \<Rightarrow> string option" where
  "regexp_remove P targetText content =
     (case targetText of
        JUndefined \<Rightarrow> Some (remove_all [] content)
      | JString t \<Rightarrow>
          if list_ex is_meta t then regexp_remove_g P t content
          else Some (remove_all t content))"

text \<open>The branch \<open>delete_from_file_content\<close>, index.ts lines 276 to 289.\<close>

definition tool_delete_from :: "platform \<Rightarrow> drive \<Rightarrow> arguments \<Rightarrow> tool_text io" where
  "tool_delete_from P D arguments h =
     (case arguments of
        None \<Rightarrow> (Inl TypeError, h)
      | Some args \<Rightarrow>
          (case resolveFileId D (ToString (args ''filename'')) h of
             (Inl e, h1) \<Rightarrow> (Inl e, h1)
           | (Inr fileId, h1) \<Rightarrow>
               (case remote (files_get_data D h1 fileId (Some ''media''))
                       (FilesGet fileId (Some ''media'') ''arraybuffer'') h1 of
                  (Inl e, h2) \<Rightarrow> (Inl e, h2)
                | (Inr fileRes, h2) \<Rightarrow>
                    (let currentContent = utf8_decode P fileRes in
                     if \<not> includes_str currentContent (ToString (args ''targetText'')) then
                       (Inl (TextNotFound (ToString (args ''targetText''))), h2)
                     else
                       (case regexp_remove P (args ''targetText'') currentContent of
                          None \<Rightarrow> (Inl SyntaxError, h2)
                        | Some updatedContent \<Rightarrow>
                            (case remote (files_update D h2 fileId ''text/plain''
                                            (utf8_encode P updatedContent))
                                    (FilesUpdate fileId ''text/plain'' (utf8_encode P updatedContent))
                                    h2 of
                               (Inl e, h3) \<Rightarrow> (Inl e, h3)
                             | (Inr _, h3) \<Rightarrow> (Inr (RemoveDone fileId), h3)))))))"

text \<open>The call-tool handler, index.ts lines 213 to 292.\<close>

definition CallTool :: "platform \<Rightarrow> drive \<Rightarrow> string \<Rightarrow> arguments \<Rightarrow> tool_text io" where
  "CallTool P D name arguments h =
     (if name = ''search'' then tool_search D arguments h
      else if name = ''upload_file_with_content'' then tool_upload P D arguments h
      else if name = ''update_file_content'' then tool_update P D arguments h
      else if name = ''delete_file'' then tool_delete D arguments h
      else if name = ''read_file_content'' then tool_read P D arguments h
      else if name = ''append_file_content'' then tool_append P D arguments h
      else if name = ''delete_from_file_content'' then tool_delete_from P D arguments h
      else (Inl ToolNotFound, h))"

section \<open>The read plan of the specification\<close>

text \<open>
  The specification describes the read path as a plan chosen from the mime type alone and
  then executed. The two definitions below follow the specification's words (sections 3
  and 4.2), not the source; the read-resource handler is compared with them.
\<close>

datatype ReadPlan = Export string | RawText | RawBinary

definition planRead_spec :: "string \<Rightarrow> ReadPlan" where
  "planRead_spec mime =
     (if prefix ''application/vnd.google-apps'' mime then
        (if mime = ''application/vnd.google-apps.document'' then Export ''text/markdown''
         else if mime = ''application/vnd.google-apps.spreadsheet'' then Export ''text/csv''
         else if mime = ''application/vnd.google-apps.presentation'' then Export ''text/plain''
         else if mime = ''application/vnd.google-apps.drawing'' then Export ''image/png''
         else Export ''text/plain'')
      else if prefix ''text/'' mime \<or> mime = ''application/json'' then RawText
      else RawBinary)"

definition runPlan_spec ::
  "platform \<Rightarrow> drive \<Rightarrow> string \<Rightarrow> string \<Rightarrow> string \<Rightarrow> ReadPlan \<Rightarrow> resource_content io" where
  "runPlan_spec P D uri fileId mime plan h =
     (case plan of
        Export targetMime \<Rightarrow>
          (case files_export D h fileId targetMime of
             Inl m \<Rightarrow> (Inl (RemoteFailure m), h @ [FilesExport fileId targetMime])
           | Inr converted \<Rightarrow>
               (Inr (TextContent uri targetMime converted), h @ [FilesExport fileId targetMime]))
      | RawText \<Rightarrow>
          (case files_get_data D h fileId None of
             Inl m \<Rightarrow> (Inl (RemoteFailure m), h @ [FilesGet fileId None ''arraybuffer''])
           | Inr bytes \<Rightarrow>
               (Inr (TextContent uri mime (utf8_decode P bytes)),
                h @ [FilesGet fileId None ''arraybuffer'']))
      | RawBinary \<Rightarrow>
          (case files_get_data D h fileId None of
             Inl m \<Rightarrow> (Inl (RemoteFailure m), h @ [FilesGet fileId None ''arraybuffer''])
           | Inr bytes \<Rightarrow>
               (Inr (BlobContent uri mime (base64 P bytes)),
                h @ [FilesGet fileId None ''arraybuffer''])))"

section \<open>Vocabulary of the properties\<close>

text \<open>The requests an operation performed, given the history it started from.\<close>

definition new_calls :: "history \<Rightarrow> (error + 'a) \<times> history \<Rightarrow> api_call list" where
  "new_calls h r = drop (length h) (snd r)"

text \<open>A lookup is a listing request; a write is a request that changes the remote
  files.\<close>

fun is_lookup :: "api_call \<Rightarrow> bool" where
  "is_lookup (FilesList p) = True"
| "is_lookup c = False"

fun is_write :: "api_call \<Rightarrow> bool" where
  "is_write (FilesCreate n m b) = True"
| "is_write (FilesUpdate f m b) = True"
| "is_write (FilesDelete f) = True"
| "is_write c = False"

text \<open>The media mime type of a content upload to an existing file.\<close>

fun upload_mime :: "api_call \<Rightarrow> string option" where
  "upload_mime (FilesUpdate f m b) = Some m"
| "upload_mime c = None"

text \<open>A character with its escape: a backslash in front of a backslash and of a single
  quote.\<close>

definition escaped_char :: "char \<Rightarrow> string" where
  "escaped_char c =
     (if c = backslash then [backslash, backslash]
      else if c = squote then [backslash, squote]
      else [c])"

section \<open>A sample platform and provider\<close>

text \<open>
  A platform for ASCII text (both UTF-8 conversions are the identity) whose mime table and
  regular-expression engine know nothing, and a provider that answers every listing with
  the same files, every download with the same body, and accepts every write.
\<close>

definition sample_platform :: platform where
  "sample_platform =
     \<lparr> mime_lookup = (\<lambda>filename. None),
       regexp_remove_g = (\<lambda>pat content. None),
       base64 = (\<lambda>data. data),
       utf8_decode = (\<lambda>data. data),
       utf8_encode = (\<lambda>text. text) \<rparr>"

definition sample_drive :: "drive_file list \<Rightarrow> string \<Rightarrow> string \<Rightarrow> drive" where
  "sample_drive listed mime body =
     \<lparr> files_list = (\<lambda>h p. Inr \<lparr> resp_files = Some listed, resp_nextPageToken = None \<rparr>),
       files_get_meta = (\<lambda>h fileId. Inr (Some mime)),
       files_get_data = (\<lambda>h fileId alt. Inr body),
       files_export = (\<lambda>h fileId target. Inr body),
       files_create = (\<lambda>h name mimeType content. Inr (JString ''new-file-id'')),
       files_update = (\<lambda>h fileId mimeType content. Inr ()),
       files_delete = (\<lambda>h fileId. Inr ()) \<rparr>"

definition notes_file :: drive_file where
  "notes_file = \<lparr> file_id = ''id-of-notes'', file_name = ''notes.txt'',
                   file_mimeType = ''text/plain'' \<rparr>"

definition other_file :: drive_file where
  "other_file = \<lparr> file_id = ''id-of-other'', file_name = ''notes.txt'',
                   file_mimeType = ''application/pdf'' \<rparr>"

definition sample_id :: string where
  "sample_id = ''1A2b3C4d5E6f7G8h9I0j-_kL''"

definition no_args :: "string \<Rightarrow> jsval" where
  "no_args key = JUndefined"

definition str_args :: "(string \<times> string) list \<Rightarrow> string \<Rightarrow> jsval" where
  "str_args kvs key = (case map_of kvs key of None \<Rightarrow> JUndefined | Some v \<Rightarrow> JString v)"

section \<open>Auxiliary facts\<close>

lemma remote_simps:
  "remote (Inr r) c h = (Inr r, h @ [c])"
  "remote (Inl m) c h = (Inl (RemoteFailure m), h @ [c])"
  by (simp_all add: remote_def)

lemma id_shape_sample_id: "id_shape sample_id"
  by (simp add: sample_id_def id_shape_def word_char_def)

lemma not_id_shape_short: "length s < 20 \<Longrightarrow> \<not> id_shape s"
  by (simp add: id_shape_def)

lemma sample_drive_simps:
  "files_list (sample_drive listed mime body) h p
     = Inr \<lparr> resp_files = Some listed, resp_nextPageToken = None \<rparr>"
  "files_get_meta (sample_drive listed mime body) h f = Inr (Some mime)"
  "files_get_data (sample_drive listed mime body) h f alt = Inr body"
  "files_export (sample_drive listed mime body) h f t = Inr body"
  "files_create (sample_drive listed mime body) h n m b = Inr (JString ''new-file-id'')"
  "files_update (sample_drive listed mime body) h f m b = Inr ()"
  "files_delete (sample_drive listed mime body) h f = Inr ()"
  by (simp_all add: sample_drive_def)

lemma sample_platform_simps:
  "utf8_decode sample_platform s = s"
  "utf8_encode sample_platform s = s"
  "base64 sample_platform s = s"
  by (simp_all add: sample_platform_def)

lemma replace_first_prefix: "replace_first pat rep (pat @ s) = rep @ s"
proof (cases "pat @ s")
  case Nil
  then show ?thesis by simp
next
  case (Cons a list)
  have p: "prefix pat (a # list)"
    using Cons by (metis prefixI)
  have d: "drop (length pat) (a # list) = s"
    using Cons by (metis append_eq_conv_conj)
  have "replace_first pat rep (a # list) = rep @ s"
    using p d by simp
  then show ?thesis using Cons by simp
qed

lemma resolve_history:
  "snd (resolveFileId D s h) = h @ (if id_shape s then [] else [FilesList (name_lookup s)])"
  by (cases "files_list D h (name_lookup s)")
     (simp_all add: resolveFileId_def remote_def Let_def)

lemma CallTool_simps:
  "CallTool P D ''search'' a = tool_search D a"
  "CallTool P D ''upload_file_with_content'' a = tool_upload P D a"
  "CallTool P D ''update_file_content'' a = tool_update P D a"
  "CallTool P D ''delete_file'' a = tool_delete D a"
  "CallTool P D ''read_file_content'' a = tool_read P D a"
  "CallTool P D ''append_file_content'' a = tool_append P D a"
  "CallTool P D ''delete_from_file_content'' a = tool_delete_from P D a"
  by (rule ext, simp add: CallTool_def)+

lemma squote_neq_backslash: "squote \<noteq> backslash"
  by (simp add: squote_def backslash_def)

lemma escape_is_per_char:
  "replace_char_g squote [backslash, squote]
     (replace_char_g backslash [backslash, backslash] query)
   = concat (map escaped_char query)"
  by (induction query) (auto simp: escaped_char_def squote_neq_backslash)

lemma resolve_sample_name:
  "length s < 20 \<Longrightarrow>
   resolveFileId (sample_drive [f] mime body) s h
     = (Inr (file_id f), h @ [FilesList (name_lookup s)])"
  by (simp add: resolveFileId_def not_id_shape_short sample_drive_simps remote_simps)

lemma includes_str_iff: "includes_str s t \<longleftrightarrow> sublist t s"
  by (induction s) (simp_all add: sublist_Cons_right)

lemma resolve_historyD:
  "resolveFileId D s h = (r, h1) \<Longrightarrow>
   h1 = h @ (if id_shape s then [] else [FilesList (name_lookup s)])"
  using resolve_history [of D s h] by simp

lemma new_calls_append [simp]: "new_calls h (r, h @ cs) = cs"
  by (simp add: new_calls_def)

lemma new_calls_same [simp]: "new_calls h (r, h) = []"
  by (simp add: new_calls_def)

lemma tool_update_writes:
  assumes "tool_update P D a h = (r, h')"
  shows "\<exists>cs. h' = h @ cs \<and>
           list_all (\<lambda>c. is_write c \<longrightarrow> upload_mime c = Some ''text/plain'') cs \<and>
           ((\<exists>t. r = Inr t) \<longrightarrow> cs \<noteq> [] \<and> (\<exists>f b. last cs = FilesUpdate f ''text/plain'' b))"
  using assms
  by (auto simp: tool_update_def remote_def
      split: option.splits sum.splits prod.splits jsval.splits if_splits
      dest!: resolve_historyD)

lemma tool_append_writes:
  assumes "tool_append P D a h = (r, h')"
  shows "\<exists>cs. h' = h @ cs \<and>
           list_all (\<lambda>c. is_write c \<longrightarrow> upload_mime c = Some ''text/plain'') cs \<and>
           ((\<exists>t. r = Inr t) \<longrightarrow> cs \<noteq> [] \<and> (\<exists>f b. last cs = FilesUpdate f ''text/plain'' b))"
  using assms
  by (auto simp: tool_append_def remote_def Let_def
      split: option.splits sum.splits prod.splits jsval.splits if_splits
      dest!: resolve_historyD)

lemma tool_delete_from_writes:
  assumes "tool_delete_from P D a h = (r, h')"
  shows "\<exists>cs. h' = h @ cs \<and>
           list_all (\<lambda>c. is_write c \<longrightarrow> upload_mime c = Some ''text/plain'') cs \<and>
           ((\<exists>t. r = Inr t) \<longrightarrow> cs \<noteq> [] \<and> (\<exists>f b. last cs = FilesUpdate f ''text/plain'' b))"
  using assms
  by (auto simp: tool_delete_from_def remote_def Let_def
      split: option.splits sum.splits prod.splits jsval.splits if_splits
      dest!: resolve_historyD)

lemma read_by_mime_history:
  "\<exists>c. snd (read_by_mime P D uri fileId mime h) = h @ [c] \<and> \<not> is_lookup c"
  by (cases "files_export D h fileId (exportMimeType mime)";
      cases "files_get_data D h fileId None")
     (simp_all add: read_by_mime_def remote_simps)

lemma ReadResource_calls:
  "\<exists>rest. new_calls h (ReadResource P D uri h)
            = (if id_shape (replace_first ''gdrive:///'' [] uri) then []
               else [FilesList (name_lookup (replace_first ''gdrive:///'' [] uri))]) @ rest \<and>
          filter is_lookup rest = [] \<and>
          (id_shape (replace_first ''gdrive:///'' [] uri) \<longrightarrow>
             take 1 rest = [FilesGet (replace_first ''gdrive:///'' [] uri) None ''json''])"
proof (cases "resolveFileId D (replace_first ''gdrive:///'' [] uri) h")
  case (Pair r h1)
  note h1 = resolve_historyD [OF Pair]
  show ?thesis
  proof (cases r)
    case (Inl e)
    with Pair h1 show ?thesis
      by (auto simp: ReadResource_def new_calls_def resolveFileId_def)
  next
    case (Inr fileId)
    have fid: "id_shape (replace_first ''gdrive:///'' [] uri) \<Longrightarrow>
               fileId = replace_first ''gdrive:///'' [] uri"
      using Pair Inr by (simp add: resolveFileId_def)
    show ?thesis
    proof (cases "files_get_meta D h1 fileId")
      case (Inl m)
      with Pair Inr h1 fid show ?thesis
        by (auto simp: ReadResource_def remote_simps new_calls_def)
    next
      case (Inr m)
      obtain c where
        c: "snd (read_by_mime P D uri fileId
                  (case m of None \<Rightarrow> ''application/octet-stream''
                   | Some s \<Rightarrow> if s = [] then ''application/octet-stream'' else s)
                  (h1 @ [FilesGet fileId None ''json'']))
            = (h1 @ [FilesGet fileId None ''json'']) @ [c]" and nl: "\<not> is_lookup c"
        using read_by_mime_history by blast
      have "snd (ReadResource P D uri h) = (h1 @ [FilesGet fileId None ''json'']) @ [c]"
        using Pair \<open>r = Inr fileId\<close> Inr c by (simp add: ReadResource_def remote_simps)
      with h1 fid nl show ?thesis
        by (auto simp: new_calls_def)
    qed
  qed
qed

lemma not_id_shape_undefined: "\<not> id_shape ''undefined''"
  by (simp add: not_id_shape_short)

lemma take1_new_calls:
  "snd r = h @ c # cs \<Longrightarrow> take 1 (new_calls h r) = [c]"
  by (simp add: new_calls_def)

lemma tool_update_first:
  assumes "\<not> id_shape (ToString (args ''fileId''))"
  shows "\<exists>cs. snd (tool_update P D (Some args) h)
               = h @ FilesList (name_lookup (ToString (args ''fileId''))) # cs"
  using assms
  by (auto simp: tool_update_def remote_def
      split: sum.splits prod.splits jsval.splits dest!: resolve_historyD)

lemma tool_delete_first:
  assumes "\<not> id_shape (ToString (args ''fileId''))"
  shows "\<exists>cs. snd (tool_delete D (Some args) h)
               = h @ FilesList (name_lookup (ToString (args ''fileId''))) # cs"
  using assms
  by (auto simp: tool_delete_def remote_def
      split: sum.splits prod.splits jsval.splits dest!: resolve_historyD)

lemma tool_read_first:
  assumes "\<not> id_shape (ToString (args ''filename''))"
  shows "\<exists>cs. snd (tool_read P D (Some args) h)
               = h @ FilesList (name_lookup (ToString (args ''filename''))) # cs"
  using assms
  by (auto simp: tool_read_def remote_def
      split: sum.splits prod.splits jsval.splits dest!: resolve_historyD)

lemma tool_append_first:
  assumes "\<not> id_shape (ToString (args ''filename''))"
  shows "\<exists>cs. snd (tool_append P D (Some args) h)
               = h @ FilesList (name_lookup (ToString (args ''filename''))) # cs"
  using assms
  by (auto simp: tool_append_def remote_def Let_def
      split: sum.splits prod.splits jsval.splits dest!: resolve_historyD)

lemma tool_delete_from_first:
  assumes "\<not> id_shape (ToString (args ''filename''))"
  shows "\<exists>cs. snd (tool_delete_from P D (Some args) h)
               = h @ FilesList (name_lookup (ToString (args ''filename''))) # cs"
  using assms
  by (auto simp: tool_delete_from_def remote_def Let_def
      split: sum.splits prod.splits jsval.splits option.splits dest!: resolve_historyD)

lemma pieces_not_Nil: "pieces t s \<noteq> []"
  by (induction t s rule: pieces.induct) (auto split: list.splits)

lemma prefix_hd_pieces: "prefix (hd (pieces t s)) s"
  by (induction t s rule: pieces.induct) (auto split: list.splits)

lemma remove_all_concat_pieces: "remove_all t s = concat (pieces t s)"
  by (induction t s rule: pieces.induct) (auto split: list.splits)

lemma pieces_free_of_target:
  "t \<noteq> [] \<Longrightarrow> list_all (\<lambda>p. \<not> sublist t p) (pieces t s)"
proof (induction t s rule: pieces.induct)
  case (1 t)
  then show ?case by simp
next
  case (2 t c cs)
  show ?case
  proof (cases "prefix t (c # cs)")
    case True
    with 2 show ?thesis by simp
  next
    case False
    obtain p ps where ps: "pieces t cs = p # ps"
      using pieces_not_Nil [of t cs] by (cases "pieces t cs") auto
    have "prefix p cs"
      using prefix_hd_pieces [of t cs] ps by simp
    then have "\<not> prefix t (c # p)"
      using False by (meson Cons_prefix_Cons prefix_order.trans)
    moreover have "list_all (\<lambda>p. \<not> sublist t p) (p # ps)"
      using 2 False ps by simp
    ultimately show ?thesis
      using False ps 2(3) by (simp add: sublist_Cons_right)
  qed
qed

lemma join_pieces: "t \<noteq> [] \<Longrightarrow> join_with t (pieces t s) = s"
proof (induction t s rule: pieces.induct)
  case (1 t)
  then show ?case by simp
next
  case (2 t c cs)
  show ?case
  proof (cases "prefix t (c # cs)")
    case True
    obtain q qs where qs: "pieces t (drop (length t) (c # cs)) = q # qs"
      using pieces_not_Nil [of t "drop (length t) (c # cs)"]
      by (cases "pieces t (drop (length t) (c # cs))") auto
    have "join_with t (pieces t (drop (length t) (c # cs))) = drop (length t) (c # cs)"
      using 2 True by simp
    moreover have "t @ drop (length t) (c # cs) = c # cs"
      using True by (metis append_eq_conv_conj prefixE)
    ultimately show ?thesis
      using True 2(3) qs by simp
  next
    case False
    obtain p ps where ps: "pieces t cs = p # ps"
      using pieces_not_Nil [of t cs] by (cases "pieces t cs") auto
    have "join_with t (p # ps) = cs"
      using 2 False ps by simp
    then show ?thesis
      using False ps by (cases ps) simp_all
  qed
qed

lemma length_remove_all:
  "length (remove_all t s) + count_matches t s * length t = length s"
proof (induction t s rule: remove_all.induct)
  case (1 t)
  then show ?case by simp
next
  case (2 t c cs)
  show ?case
  proof (cases "t \<noteq> [] \<and> prefix t (c # cs)")
    case True
    then have "length t \<le> length (c # cs)"
      using prefix_length_le by blast
    with 2 True show ?thesis by simp
  next
    case False
    with 2 show ?thesis by auto
  qed
qed

lemma count_matches_pos:
  "sublist t s \<Longrightarrow> 1 \<le> count_matches t s"
  by (induction t s rule: count_matches.induct) (auto simp: sublist_Cons_right)

lemma length_pieces:
  "t \<noteq> [] \<Longrightarrow> length (pieces t s) = Suc (count_matches t s)"
  by (induction t s rule: pieces.induct) (auto split: list.splits)

lemma regexp_remove_literal:
  "\<not> list_ex is_meta t \<Longrightarrow> regexp_remove P (JString t) content = Some (remove_all t content)"
  by (simp add: regexp_remove_def)

section \<open>Identifier resolver: the contract\<close>

text \<open>
  Claim C1. An input of the opaque-ID shape (twenty or more word characters and hyphens)
  is returned unchanged and the history of remote calls is left as it was. For any other
  input the history grows by exactly one call, the exact-name lookup for that input: a
  listing whose query is \<open>name = '...'\<close> around the input, of page size 5, asking for
  the fields \<open>files(id, name)\<close>. When that lookup answers with no file the result is
  \<open>NotFound\<close>, with exactly one file it is that file's id, and with two or more files
  it is \<open>Ambiguous\<close>, carrying the name and the id of every file of the answer, in
  order.
\<close>

theorem resolve_contract:
  "(id_shape s \<longrightarrow> resolveFileId D s h = (Inr s, h)) \<and>
   (\<not> id_shape s \<longrightarrow>
      snd (resolveFileId D s h)
        = h @ [FilesList \<lparr> list_q = Some (''name = '' @ [squote] @ s @ [squote]),
                            list_pageSize = 5,
                            list_fields = ''files(id, name)'',
                            list_pageToken = None \<rparr>] \<and>
      (\<forall>res. files_list D h \<lparr> list_q = Some (''name = '' @ [squote] @ s @ [squote]),
                               list_pageSize = 5,
                               list_fields = ''files(id, name)'',
                               list_pageToken = None \<rparr> = Inr res \<longrightarrow>
         (\<forall>fs. fs = (case resp_files res of None \<Rightarrow> [] | Some found \<Rightarrow> found) \<longrightarrow>
            (fs = [] \<longrightarrow> fst (resolveFileId D s h) = Inl (NotFound s)) \<and>
            (\<forall>f. fs = [f] \<longrightarrow> fst (resolveFileId D s h) = Inr (file_id f)) \<and>
            (2 \<le> length fs \<longrightarrow>
               fst (resolveFileId D s h)
                 = Inl (Ambiguous (map (\<lambda>file. (file_name file, file_id file)) fs))))))"
  by (cases "files_list D h (name_lookup s)")
     (auto simp: resolveFileId_def remote_def Let_def name_lookup_def split: option.splits)

theorem resolve_contract_witness:
  "resolveFileId (sample_drive [] [] []) sample_id [] = (Inr sample_id, []) \<and>
   resolveFileId (sample_drive [] [] []) ''notes.txt'' []
     = (Inl (NotFound ''notes.txt''),
        [FilesList \<lparr> list_q = Some (''name = 'notes.txt'' @ [squote]), list_pageSize = 5,
                      list_fields = ''files(id, name)'', list_pageToken = None \<rparr>]) \<and>
   resolveFileId (sample_drive [notes_file] [] []) ''notes.txt'' []
     = (Inr ''id-of-notes'',
        [FilesList \<lparr> list_q = Some (''name = 'notes.txt'' @ [squote]), list_pageSize = 5,
                      list_fields = ''files(id, name)'', list_pageToken = None \<rparr>]) \<and>
   resolveFileId (sample_drive [notes_file, other_file] [] []) ''notes.txt'' []
     = (Inl (Ambiguous [(''notes.txt'', ''id-of-notes''), (''notes.txt'', ''id-of-other'')]),
        [FilesList \<lparr> list_q = Some (''name = 'notes.txt'' @ [squote]), list_pageSize = 5,
                      list_fields = ''files(id, name)'', list_pageToken = None \<rparr>])"
proof -
  have n: "\<not> id_shape ''notes.txt''"
    by (simp add: not_id_shape_short)
  have a: "resolveFileId (sample_drive [] [] []) sample_id [] = (Inr sample_id, [])"
    using resolve_contract [of sample_id "sample_drive [] [] []" "[]"] id_shape_sample_id
    by simp
  have b: "resolveFileId (sample_drive [] [] []) ''notes.txt'' []
     = (Inl (NotFound ''notes.txt''),
        [FilesList \<lparr> list_q = Some (''name = 'notes.txt'' @ [squote]), list_pageSize = 5,
                      list_fields = ''files(id, name)'', list_pageToken = None \<rparr>])"
    using resolve_contract [of "''notes.txt''" "sample_drive [] [] []" "[]"] n
    by (simp add: sample_drive_simps prod_eq_iff squote_def)
  have c: "resolveFileId (sample_drive [notes_file] [] []) ''notes.txt'' []
     = (Inr ''id-of-notes'',
        [FilesList \<lparr> list_q = Some (''name = 'notes.txt'' @ [squote]), list_pageSize = 5,
                      list_fields = ''files(id, name)'', list_pageToken = None \<rparr>])"
    using resolve_contract [of "''notes.txt''" "sample_drive [notes_file] [] []" "[]"] n
    by (simp add: sample_drive_simps prod_eq_iff notes_file_def squote_def)
  have d: "resolveFileId (sample_drive [notes_file, other_file] [] []) ''notes.txt'' []
     = (Inl (Ambiguous [(''notes.txt'', ''id-of-notes''), (''notes.txt'', ''id-of-other'')]),
        [FilesList \<lparr> list_q = Some (''name = 'notes.txt'' @ [squote]), list_pageSize = 5,
                      list_fields = ''files(id, name)'', list_pageToken = None \<rparr>])"
    using resolve_contract [of "''notes.txt''" "sample_drive [notes_file, other_file] [] []" "[]"] n
    by (simp add: sample_drive_simps prod_eq_iff notes_file_def other_file_def squote_def)
  from a b c d show ?thesis by simp
qed

section \<open>Content-type strategy\<close>

text \<open>
  Claim C2. What the read-resource handler does once it knows the mime type is the
  execution of the plan that the specification's table assigns to that mime type, for
  every mime string: an export to the tabulated target for the provider-native namespace
  (document to text/markdown, spreadsheet to text/csv, presentation to text/plain, drawing
  to image/png, anything else there to text/plain), raw bytes decoded as UTF-8 text for
  \<open>text/\<close> types and \<open>application/json\<close>, raw bytes in base64 for everything else.
  The plan is a function of the mime string alone: neither the provider, the history, the
  file nor the uri enters it, so the same mime type always gets the same plan.
\<close>

theorem read_follows_plan:
  "read_by_mime P D uri fileId mime h = runPlan_spec P D uri fileId mime (planRead_spec mime) h"
  by (simp add: read_by_mime_def runPlan_spec_def planRead_spec_def exportMimeType_def
      remote_def split: sum.splits)

section \<open>Resource URIs\<close>

text \<open>
  Claim C4. Whatever files the provider lists, the list-resources handler returns one
  resource per file, in order, whose URI is \<open>gdrive:///\<close> followed by the raw id of
  the file; parsing that URI as the read-resource handler does (removing the first
  \<open>gdrive:///\<close>) gives back exactly the id of the file, and the read-resource handler
  applied to that URI hands exactly that id to the identifier resolver. The first
  occurrence of the prefix in a built URI is the prefix itself, so this holds for every
  id, in particular for every id that does not contain the scheme separator.
\<close>

theorem listed_uri_round_trip:
  assumes "files_list D h \<lparr> list_q = None, list_pageSize = 10,
                            list_fields = ''nextPageToken, files(id, name, mimeType)'',
                            list_pageToken = (case cursor of None \<Rightarrow> None
                                              | Some c \<Rightarrow> if c = [] then None else Some c) \<rparr>
             = Inr res"
  shows "\<exists>resources h'.
           ListResources D cursor h = (Inr (resources, resp_nextPageToken res), h') \<and>
           list_all2
             (\<lambda>r file.
                res_uri r = ''gdrive:///'' @ file_id file \<and>
                replace_first ''gdrive:///'' [] (res_uri r) = file_id file \<and>
                ReadResource P D (res_uri r) g
                  = (case resolveFileId D (file_id file) g of
                       (Inl e, h1) \<Rightarrow> (Inl e, h1)
                     | (Inr fileId, h1) \<Rightarrow>
                         (case remote (files_get_meta D h1 fileId)
                                 (FilesGet fileId None ''json'') h1 of
                            (Inl e, h2) \<Rightarrow> (Inl e, h2)
                          | (Inr m, h2) \<Rightarrow>
                              read_by_mime P D (res_uri r) fileId
                                (case m of None \<Rightarrow> ''application/octet-stream''
                                 | Some s \<Rightarrow> if s = [] then ''application/octet-stream'' else s)
                                h2)))
             resources
             (case resp_files res of None \<Rightarrow> [] | Some fs \<Rightarrow> fs)"
proof -
  have p: "replace_first ''gdrive:///'' [] (''gdrive:///'' @ fid) = fid" for fid
    using replace_first_prefix [of "''gdrive:///''" "[]" fid] by simp
  have q: "list_all2
             (\<lambda>r file.
                res_uri r = ''gdrive:///'' @ file_id file \<and>
                replace_first ''gdrive:///'' [] (res_uri r) = file_id file \<and>
                ReadResource P D (res_uri r) g
                  = (case resolveFileId D (file_id file) g of
                       (Inl e, h1) \<Rightarrow> (Inl e, h1)
                     | (Inr fileId, h1) \<Rightarrow>
                         (case remote (files_get_meta D h1 fileId)
                                 (FilesGet fileId None ''json'') h1 of
                            (Inl e, h2) \<Rightarrow> (Inl e, h2)
                          | (Inr m, h2) \<Rightarrow>
                              read_by_mime P D (res_uri r) fileId
                                (case m of None \<Rightarrow> ''application/octet-stream''
                                 | Some s \<Rightarrow> if s = [] then ''application/octet-stream'' else s)
                                h2)))
             (map (\<lambda>file. \<lparr> res_uri = ''gdrive:///'' @ file_id file,
                              res_mimeType = file_mimeType file,
                              res_name = file_name file \<rparr>) fs)
             fs" for fs :: "drive_file list"
    unfolding list_all2_map1
    by (rule list_all2_refl) (simp only: resource.select_convs p ReadResource_def)
  show ?thesis
    using assms q by (simp add: ListResources_def remote_simps Let_def)
qed

theorem listed_uri_round_trip_witness:
  "\<exists>resources h'.
     ListResources (sample_drive [notes_file, other_file] [] []) None []
       = (Inr (resources, None), h') \<and>
     map res_uri resources = [''gdrive:///id-of-notes'', ''gdrive:///id-of-other''] \<and>
     map (\<lambda>r. replace_first ''gdrive:///'' [] (res_uri r)) resources
       = [''id-of-notes'', ''id-of-other'']"
proof -
  have l: "files_list (sample_drive [notes_file, other_file] [] []) []
             \<lparr> list_q = None, list_pageSize = 10,
               list_fields = ''nextPageToken, files(id, name, mimeType)'',
               list_pageToken = (case None of None \<Rightarrow> None
                                 | Some c \<Rightarrow> if c = [] then None else Some c) \<rparr>
           = Inr \<lparr> resp_files = Some [notes_file, other_file], resp_nextPageToken = None \<rparr>"
    by (simp add: sample_drive_simps)
  show ?thesis
    using listed_uri_round_trip [OF l, of sample_platform "[]"]
    by (auto simp: list_all2_Cons2 notes_file_def other_file_def)
qed

text \<open>
  Claim C3, as amended. The read-resource handler removes the first \<open>gdrive:///\<close>
  from the URI and hands the rest to the identifier resolver. When the rest has the
  opaque-ID shape, the first request of the handler fetches the metadata of exactly that
  id and the handler makes no lookup. Otherwise the first request of the handler is the
  exact-name lookup for the rest, and it is the handler's only lookup.
\<close>

theorem read_resolves_parsed_id:
  "(id_shape (replace_first ''gdrive:///'' [] uri) \<longrightarrow>
      filter is_lookup (new_calls h (ReadResource P D uri h)) = [] \<and>
      take 1 (new_calls h (ReadResource P D uri h))
        = [FilesGet (replace_first ''gdrive:///'' [] uri) None ''json'']) \<and>
   (\<not> id_shape (replace_first ''gdrive:///'' [] uri) \<longrightarrow>
      filter is_lookup (new_calls h (ReadResource P D uri h))
        = [FilesList (name_lookup (replace_first ''gdrive:///'' [] uri))] \<and>
      take 1 (new_calls h (ReadResource P D uri h))
        = [FilesList (name_lookup (replace_first ''gdrive:///'' [] uri))])"
  using ReadResource_calls [of h P D uri] by auto

theorem read_resolves_parsed_id_witness:
  "take 1 (new_calls [] (ReadResource sample_platform (sample_drive [] ''text/plain'' ''A'')
                           (''gdrive:///'' @ sample_id) []))
     = [FilesGet sample_id None ''json''] \<and>
   filter is_lookup (new_calls [] (ReadResource sample_platform
                           (sample_drive [] ''text/plain'' ''A'') (''gdrive:///'' @ sample_id) []))
     = [] \<and>
   filter is_lookup (new_calls [] (ReadResource sample_platform
                           (sample_drive [] ''text/plain'' ''A'') ''gdrive:///abc'' []))
     = [FilesList (name_lookup ''abc'')]"
proof -
  have p: "replace_first ''gdrive:///'' [] (''gdrive:///'' @ sample_id) = sample_id"
    using replace_first_prefix [of "''gdrive:///''" "[]" sample_id] by simp
  have q: "replace_first ''gdrive:///'' [] ''gdrive:///abc'' = ''abc''"
    by simp
  have n: "\<not> id_shape ''abc''"
    by (simp add: not_id_shape_short)
  show ?thesis
    using read_resolves_parsed_id [of "''gdrive:///'' @ sample_id" "[]" sample_platform
            "sample_drive [] ''text/plain'' ''A''"]
          read_resolves_parsed_id [of "''gdrive:///abc''" "[]" sample_platform
            "sample_drive [] ''text/plain'' ''A''"]
          id_shape_sample_id n
    unfolding p q by simp
qed

text \<open>
  Claim C3 as stated (the parsed id is never resolved by a lookup) fails: reading
  \<open>gdrive:///abc\<close> looks the name \<open>abc\<close> up and reads the file of that name.
\<close>

theorem read_makes_lookup_counterexample:
  "ReadResource sample_platform (sample_drive [notes_file] ''text/plain'' ''A'')
     ''gdrive:///abc'' []
   = (Inr (TextContent ''gdrive:///abc'' ''text/plain'' ''A''),
      [FilesList (name_lookup ''abc''),
       FilesGet ''id-of-notes'' None ''json'',
       FilesGet ''id-of-notes'' None ''arraybuffer''])"
  by (simp add: ReadResource_def resolve_sample_name sample_drive_simps remote_simps
      read_by_mime_def sample_platform_simps notes_file_def)

section \<open>Tools\<close>

text \<open>
  Claim C7. When \<open>append_file_content\<close> is invoked with a text to append, the file
  resolves to an id and the download of its body succeeds, the calls that follow the
  resolution are that download and one upload to the same id whose body is the current
  content, a newline and the appended text. Appending \<open>B\<close> to a file that contains
  \<open>A\<close> uploads \<open>A\<close>, newline, \<open>B\<close>.
\<close>

theorem append_writes_joined_text:
  assumes "args ''appendText'' = JString appendText"
    and "resolveFileId D (ToString (args ''filename'')) h = (Inr fileId, h1)"
    and "files_get_data D h1 fileId (Some ''media'') = Inr bytes"
  shows "snd (CallTool P D ''append_file_content'' (Some args) h)
           = h1 @ [FilesGet fileId (Some ''media'') ''arraybuffer'',
                   FilesUpdate fileId ''text/plain''
                     (utf8_encode P (utf8_decode P bytes @ ''\<newline>'' @ appendText))]"
  using assms
  by (cases "files_update D (h1 @ [FilesGet fileId (Some ''media'') ''arraybuffer'']) fileId
        ''text/plain'' (utf8_encode P (utf8_decode P bytes @ ''\<newline>'' @ appendText))")
     (simp_all add: CallTool_simps tool_append_def remote_simps)

theorem append_writes_joined_text_witness:
  "snd (CallTool sample_platform (sample_drive [notes_file] ''text/plain'' ''A'')
          ''append_file_content''
          (Some (str_args [(''filename'', ''notes.txt''), (''appendText'', ''B'')])) [])
     = [FilesList (name_lookup ''notes.txt''),
        FilesGet ''id-of-notes'' (Some ''media'') ''arraybuffer'',
        FilesUpdate ''id-of-notes'' ''text/plain'' ''A\<newline>B'']"
proof -
  have a: "str_args [(''filename'', ''notes.txt''), (''appendText'', ''B'')] ''appendText''
             = JString ''B''"
    by (simp add: str_args_def)
  have r: "resolveFileId (sample_drive [notes_file] ''text/plain'' ''A'')
             (ToString (str_args [(''filename'', ''notes.txt''), (''appendText'', ''B'')] ''filename''))
             []
             = (Inr ''id-of-notes'', [FilesList (name_lookup ''notes.txt'')])"
    by (simp add: str_args_def resolve_sample_name notes_file_def)
  have g: "files_get_data (sample_drive [notes_file] ''text/plain'' ''A'')
             [FilesList (name_lookup ''notes.txt'')] ''id-of-notes'' (Some ''media'') = Inr ''A''"
    by (simp add: sample_drive_simps)
  show ?thesis
    using append_writes_joined_text [OF a r g, of sample_platform]
    by (simp add: sample_platform_simps)
qed

text \<open>
  Claim C8. The search tool sends one listing request of page size 10 whose query is
  \<open>fullText contains '...'\<close> around the user's query with a backslash put in front of
  every backslash and of every single quote. The resolver's exact-name lookup puts the
  name between the quotes as it is.
\<close>

theorem search_escapes_resolver_does_not:
  "(args ''query'' = JString query \<longrightarrow>
      snd (CallTool P D ''search'' (Some args) h)
        = h @ [FilesList \<lparr> list_q = Some (''fullText contains '' @ [squote]
                                          @ concat (map escaped_char query) @ [squote]),
                            list_pageSize = 10,
                            list_fields = ''files(id, name, mimeType, modifiedTime, size)'',
                            list_pageToken = None \<rparr>]) \<and>
   (\<not> id_shape name \<longrightarrow>
      snd (resolveFileId D name h)
        = h @ [FilesList \<lparr> list_q = Some (''name = '' @ [squote] @ name @ [squote]),
                            list_pageSize = 5,
                            list_fields = ''files(id, name)'',
                            list_pageToken = None \<rparr>])"
proof -
  have "snd (CallTool P D ''search'' (Some args) h)
          = h @ [FilesList (search_params (concat (map escaped_char query)))]"
    if "args ''query'' = JString query"
    using that
    by (cases "files_list D h (search_params (concat (map escaped_char query)))")
       (simp_all add: CallTool_simps tool_search_def remote_simps escape_is_per_char)
  moreover have "snd (resolveFileId D name h) = h @ [FilesList (name_lookup name)]"
    if "\<not> id_shape name"
    using that by (simp add: resolve_history)
  ultimately show ?thesis
    by (simp add: search_params_def name_lookup_def)
qed

theorem search_escapes_resolver_does_not_witness:
  "snd (CallTool sample_platform (sample_drive [] [] []) ''search''
          (Some (str_args [(''query'', ''it's a'' @ [backslash] @ ''b'')])) [])
     = [FilesList \<lparr> list_q = Some (''fullText contains '' @ [squote]
                                   @ ''it'' @ [backslash, squote] @ ''s a''
                                   @ [backslash, backslash] @ ''b'' @ [squote]),
                         list_pageSize = 10,
                         list_fields = ''files(id, name, mimeType, modifiedTime, size)'',
                         list_pageToken = None \<rparr>] \<and>
   snd (resolveFileId (sample_drive [] [] []) (''it's a'' @ [backslash] @ ''b'') [])
     = [FilesList \<lparr> list_q = Some (''name = '' @ [squote]
                                   @ ''it's a'' @ [backslash] @ ''b'' @ [squote]),
                         list_pageSize = 5,
                         list_fields = ''files(id, name)'',
                         list_pageToken = None \<rparr>]"
proof -
  have q: "str_args [(''query'', ''it's a'' @ [backslash] @ ''b'')] ''query''
             = JString (''it's a'' @ [backslash] @ ''b'')"
    by (simp add: str_args_def)
  have n: "\<not> id_shape (''it's a'' @ [backslash] @ ''b'')"
    by (simp add: not_id_shape_short)
  show ?thesis
    using search_escapes_resolver_does_not
      [of "str_args [(''query'', ''it's a'' @ [backslash] @ ''b'')]"
          "''it's a'' @ [backslash] @ ''b''" sample_platform "sample_drive [] [] []" "[]"
          "''it's a'' @ [backslash] @ ''b''"] q n
    by (simp add: escaped_char_def squote_def backslash_def)
qed

text \<open>
  Claim C5. When \<open>delete_from_file_content\<close> is invoked with a target text, the file
  resolves to an id, the download of its body succeeds and the target does not occur in
  the current content as a literal substring, the invocation fails \<open>TextNotFound\<close>
  right after the download, and none of the requests it performed is a write: the remote
  content is left as it was.
\<close>

theorem delete_absent_target:
  assumes "args ''targetText'' = JString t"
    and "resolveFileId D (ToString (args ''filename'')) h = (Inr fileId, h1)"
    and "files_get_data D h1 fileId (Some ''media'') = Inr bytes"
    and "\<not> sublist t (utf8_decode P bytes)"
  shows "CallTool P D ''delete_from_file_content'' (Some args) h
           = (Inl (TextNotFound t), h1 @ [FilesGet fileId (Some ''media'') ''arraybuffer'']) \<and>
         filter is_write (new_calls h (CallTool P D ''delete_from_file_content'' (Some args) h))
           = []"
proof -
  have r: "CallTool P D ''delete_from_file_content'' (Some args) h
           = (Inl (TextNotFound t), h1 @ [FilesGet fileId (Some ''media'') ''arraybuffer''])"
    using assms
    by (simp add: CallTool_simps tool_delete_from_def remote_simps includes_str_iff)
  have "h1 = h @ (if id_shape (ToString (args ''filename'')) then []
                  else [FilesList (name_lookup (ToString (args ''filename'')))])"
    using assms(2) by (rule resolve_historyD)
  then have "filter is_write (new_calls h (CallTool P D ''delete_from_file_content'' (Some args) h))
           = []"
    unfolding r by (simp add: new_calls_def)
  with r show ?thesis by simp
qed

theorem delete_absent_target_witness:
  "CallTool sample_platform (sample_drive [notes_file] ''text/plain'' ''hello world'')
     ''delete_from_file_content''
     (Some (str_args [(''filename'', ''notes.txt''), (''targetText'', ''low'')])) []
     = (Inl (TextNotFound ''low''),
        [FilesList (name_lookup ''notes.txt''),
         FilesGet ''id-of-notes'' (Some ''media'') ''arraybuffer''])"
proof -
  have a: "str_args [(''filename'', ''notes.txt''), (''targetText'', ''low'')] ''targetText''
             = JString ''low''"
    by (simp add: str_args_def)
  have r: "resolveFileId (sample_drive [notes_file] ''text/plain'' ''hello world'')
             (ToString (str_args [(''filename'', ''notes.txt''), (''targetText'', ''low'')] ''filename''))
             []
             = (Inr ''id-of-notes'', [FilesList (name_lookup ''notes.txt'')])"
    by (simp add: str_args_def resolve_sample_name notes_file_def)
  have g: "files_get_data (sample_drive [notes_file] ''text/plain'' ''hello world'')
             [FilesList (name_lookup ''notes.txt'')] ''id-of-notes'' (Some ''media'')
             = Inr ''hello world''"
    by (simp add: sample_drive_simps)
  have n: "\<not> sublist ''low'' (utf8_decode sample_platform ''hello world'')"
    by (simp add: sample_platform_simps includes_str_iff [symmetric])
  show ?thesis
    using delete_absent_target [OF a r g n] by simp
qed

text \<open>
  Claim C10. Whatever the arguments and the provider's answers, every write request issued
  by \<open>update_file_content\<close>, \<open>append_file_content\<close> and
  \<open>delete_from_file_content\<close> is an upload with media mime type \<open>text/plain\<close>;
  the file's own mime type is never consulted. A successful invocation ends with such an
  upload.
\<close>

theorem content_writes_text_plain:
  assumes "name \<in> {''update_file_content'', ''append_file_content'',
                    ''delete_from_file_content''}"
  shows "list_all (\<lambda>c. is_write c \<longrightarrow> upload_mime c = Some ''text/plain'')
           (new_calls h (CallTool P D name arguments h)) \<and>
         ((\<exists>t. fst (CallTool P D name arguments h) = Inr t) \<longrightarrow>
            new_calls h (CallTool P D name arguments h) \<noteq> [] \<and>
            (\<exists>fileId body. last (new_calls h (CallTool P D name arguments h))
                              = FilesUpdate fileId ''text/plain'' body))"
proof -
  obtain r h' where c: "CallTool P D name arguments h = (r, h')"
    by (cases "CallTool P D name arguments h")
  have "\<exists>cs. h' = h @ cs \<and>
           list_all (\<lambda>c. is_write c \<longrightarrow> upload_mime c = Some ''text/plain'') cs \<and>
           ((\<exists>t. r = Inr t) \<longrightarrow> cs \<noteq> [] \<and> (\<exists>f b. last cs = FilesUpdate f ''text/plain'' b))"
    using assms c
    by (auto simp: CallTool_simps
        intro: tool_update_writes tool_append_writes tool_delete_from_writes)
  then show ?thesis
    unfolding c by auto
qed

theorem content_writes_text_plain_witness:
  "fst (CallTool sample_platform (sample_drive [other_file] ''application/pdf'' ''%PDF'')
          ''update_file_content''
          (Some (str_args [(''fileId'', ''notes.txt''), (''newContent'', ''hello'')])) [])
     = Inr (UpdateDone ''id-of-other'') \<and>
   (\<exists>fileId body.
      last (new_calls [] (CallTool sample_platform
              (sample_drive [other_file] ''application/pdf'' ''%PDF'') ''update_file_content''
              (Some (str_args [(''fileId'', ''notes.txt''), (''newContent'', ''hello'')])) []))
        = FilesUpdate fileId ''text/plain'' body)"
proof -
  have e: "fst (CallTool sample_platform (sample_drive [other_file] ''application/pdf'' ''%PDF'')
          ''update_file_content''
          (Some (str_args [(''fileId'', ''notes.txt''), (''newContent'', ''hello'')])) [])
     = Inr (UpdateDone ''id-of-other'')"
    by (simp add: CallTool_simps tool_update_def str_args_def resolve_sample_name
        sample_drive_simps remote_simps other_file_def)
  have m: "''update_file_content'' \<in> {''update_file_content'', ''append_file_content'',
                    ''delete_from_file_content''}"
    by simp
  show ?thesis
    using content_writes_text_plain [OF m, of "[]" sample_platform
        "sample_drive [other_file] ''application/pdf'' ''%PDF''"
        "Some (str_args [(''fileId'', ''notes.txt''), (''newContent'', ''hello'')])"] e
    by simp
qed

text \<open>
  Claim C6, as amended. When \<open>delete_from_file_content\<close> is invoked with a target text
  that has no pattern metacharacter and occurs in the current content, the content is
  scanned once from the left and the leftmost non-overlapping matches of the target are
  cut out: there are N matches with N at least 1, and the length of the uploaded text is
  the length of the current content minus N times the length of the target. When the
  target is not empty, the current content is the pieces between the cuts joined by the
  target, the body uploaded is the same pieces joined directly, and no piece contains the
  target.
\<close>

theorem delete_cuts_matches:
  assumes "args ''targetText'' = JString t" and "\<not> list_ex is_meta t"
    and "resolveFileId D (ToString (args ''filename'')) h = (Inr fileId, h1)"
    and "files_get_data D h1 fileId (Some ''media'') = Inr bytes"
    and "sublist t (utf8_decode P bytes)"
  shows "snd (CallTool P D ''delete_from_file_content'' (Some args) h)
           = h1 @ [FilesGet fileId (Some ''media'') ''arraybuffer'',
                   FilesUpdate fileId ''text/plain''
                     (utf8_encode P (concat (pieces t (utf8_decode P bytes))))] \<and>
         1 \<le> count_matches t (utf8_decode P bytes) \<and>
         length (concat (pieces t (utf8_decode P bytes)))
           + count_matches t (utf8_decode P bytes) * length t
           = length (utf8_decode P bytes) \<and>
         (t \<noteq> [] \<longrightarrow>
            join_with t (pieces t (utf8_decode P bytes)) = utf8_decode P bytes \<and>
            list_all (\<lambda>p. \<not> sublist t p) (pieces t (utf8_decode P bytes)) \<and>
            length (pieces t (utf8_decode P bytes))
              = Suc (count_matches t (utf8_decode P bytes)))"
proof -
  let ?C = "utf8_decode P bytes"
  let ?h2 = "h1 @ [FilesGet fileId (Some ''media'') ''arraybuffer'']"
  have "snd (CallTool P D ''delete_from_file_content'' (Some args) h)
          = ?h2 @ [FilesUpdate fileId ''text/plain'' (utf8_encode P (remove_all t ?C))]"
    using assms
    by (cases "files_update D ?h2 fileId ''text/plain'' (utf8_encode P (remove_all t ?C))")
       (simp_all add: CallTool_simps tool_delete_from_def remote_simps includes_str_iff
          regexp_remove_literal)
  then have "snd (CallTool P D ''delete_from_file_content'' (Some args) h)
           = h1 @ [FilesGet fileId (Some ''media'') ''arraybuffer'',
                   FilesUpdate fileId ''text/plain'' (utf8_encode P (concat (pieces t ?C)))]"
    by (simp add: remove_all_concat_pieces)
  moreover have "1 \<le> count_matches t ?C"
    using assms(5) by (rule count_matches_pos)
  moreover have "length (concat (pieces t ?C)) + count_matches t ?C * length t = length ?C"
    using length_remove_all [of t ?C] by (simp add: remove_all_concat_pieces)
  moreover have "join_with t (pieces t ?C) = ?C" if "t \<noteq> []"
    using that by (rule join_pieces)
  moreover have "list_all (\<lambda>p. \<not> sublist t p) (pieces t ?C)" if "t \<noteq> []"
    using that by (rule pieces_free_of_target)
  moreover have "length (pieces t ?C) = Suc (count_matches t ?C)" if "t \<noteq> []"
    using that by (rule length_pieces)
  ultimately show ?thesis by simp
qed

theorem delete_cuts_matches_witness:
  "snd (CallTool sample_platform (sample_drive [notes_file] ''text/plain'' ''a-b-c'')
          ''delete_from_file_content''
          (Some (str_args [(''filename'', ''notes.txt''), (''targetText'', ''-'')])) [])
     = [FilesList (name_lookup ''notes.txt''),
        FilesGet ''id-of-notes'' (Some ''media'') ''arraybuffer'',
        FilesUpdate ''id-of-notes'' ''text/plain'' ''abc''] \<and>
   count_matches ''-'' ''a-b-c'' = 2 \<and>
   length ''abc'' + count_matches ''-'' ''a-b-c'' * length ''-'' = length ''a-b-c'' \<and>
   join_with ''-'' (pieces ''-'' ''a-b-c'') = ''a-b-c'' \<and>
   list_all (\<lambda>p. \<not> sublist ''-'' p) (pieces ''-'' ''a-b-c'')"
proof -
  have a: "str_args [(''filename'', ''notes.txt''), (''targetText'', ''-'')] ''targetText''
             = JString ''-''"
    by (simp add: str_args_def)
  have m: "\<not> list_ex is_meta ''-''"
    by (simp add: is_meta_def backslash_def)
  have r: "resolveFileId (sample_drive [notes_file] ''text/plain'' ''a-b-c'')
             (ToString (str_args [(''filename'', ''notes.txt''), (''targetText'', ''-'')] ''filename''))
             []
             = (Inr ''id-of-notes'', [FilesList (name_lookup ''notes.txt'')])"
    by (simp add: str_args_def resolve_sample_name notes_file_def)
  have g: "files_get_data (sample_drive [notes_file] ''text/plain'' ''a-b-c'')
             [FilesList (name_lookup ''notes.txt'')] ''id-of-notes'' (Some ''media'')
             = Inr ''a-b-c''"
    by (simp add: sample_drive_simps)
  have i: "sublist ''-'' (utf8_decode sample_platform ''a-b-c'')"
    by (simp add: sample_platform_simps includes_str_iff [symmetric])
  show ?thesis
    using delete_cuts_matches [OF a m r g i]
    by (simp add: sample_platform_simps)
qed

text \<open>
  Claim C6 as stated (the rewritten content contains no occurrence of the target) fails:
  the target \<open>ab\<close> occurs once in \<open>aabb\<close>, and cutting it out leaves \<open>ab\<close>,
  in which it occurs once again.
\<close>

theorem delete_leaves_occurrence_counterexample:
  "\<not> list_ex is_meta ''ab'' \<and>
   occurrences ''ab'' ''aabb'' = 1 \<and>
   CallTool sample_platform (sample_drive [notes_file] ''text/plain'' ''aabb'')
     ''delete_from_file_content''
     (Some (str_args [(''filename'', ''notes.txt''), (''targetText'', ''ab'')])) []
     = (Inr (RemoveDone ''id-of-notes''),
        [FilesList (name_lookup ''notes.txt''),
         FilesGet ''id-of-notes'' (Some ''media'') ''arraybuffer'',
         FilesUpdate ''id-of-notes'' ''text/plain'' ''ab'']) \<and>
   occurrences ''ab'' ''ab'' = 1"
  by (simp add: is_meta_def backslash_def CallTool_simps tool_delete_from_def str_args_def
      resolve_sample_name sample_drive_simps sample_platform_simps remote_simps
      regexp_remove_def notes_file_def)

text \<open>
  Claim C9, as amended. The dispatcher does not check the required keys; a key that is
  absent reads as undefined. An invocation of a registered tool without an argument
  object, a search without \<open>query\<close> and an upload without \<open>content\<close> fail with
  a TypeError before any request. An invocation of \<open>update_file_content\<close> or
  \<open>delete_file\<close> without \<open>fileId\<close>, and of \<open>read_file_content\<close>,
  \<open>append_file_content\<close> or \<open>delete_from_file_content\<close> without
  \<open>filename\<close>, reaches the provider: its first request is the exact-name lookup for
  the name \<open>undefined\<close>.
\<close>

theorem missing_keys_not_validated:
  "(name \<in> fst ` set ListTools \<longrightarrow> CallTool P D name None h = (Inl TypeError, h)) \<and>
   (args ''query'' = JUndefined \<longrightarrow>
      CallTool P D ''search'' (Some args) h = (Inl TypeError, h)) \<and>
   (args ''content'' = JUndefined \<longrightarrow>
      CallTool P D ''upload_file_with_content'' (Some args) h = (Inl TypeError, h)) \<and>
   (args ''fileId'' = JUndefined \<and> name \<in> {''update_file_content'', ''delete_file''} \<longrightarrow>
      take 1 (new_calls h (CallTool P D name (Some args) h))
        = [FilesList (name_lookup ''undefined'')]) \<and>
   (args ''filename'' = JUndefined \<and>
    name \<in> {''read_file_content'', ''append_file_content'', ''delete_from_file_content''} \<longrightarrow>
      take 1 (new_calls h (CallTool P D name (Some args) h))
        = [FilesList (name_lookup ''undefined'')])"
proof (intro conjI impI)
  assume "name \<in> fst ` set ListTools"
  then show "CallTool P D name None h = (Inl TypeError, h)"
    by (auto simp: ListTools_def CallTool_simps tool_search_def tool_upload_def tool_update_def
        tool_delete_def tool_read_def tool_append_def tool_delete_from_def)
next
  assume "args ''query'' = JUndefined"
  then show "CallTool P D ''search'' (Some args) h = (Inl TypeError, h)"
    by (simp add: CallTool_simps tool_search_def)
next
  assume "args ''content'' = JUndefined"
  then show "CallTool P D ''upload_file_with_content'' (Some args) h = (Inl TypeError, h)"
    by (simp add: CallTool_simps tool_upload_def)
next
  assume a: "args ''fileId'' = JUndefined \<and> name \<in> {''update_file_content'', ''delete_file''}"
  then have n: "\<not> id_shape (ToString (args ''fileId''))"
    by (simp add: not_id_shape_undefined)
  from a tool_update_first [of args P D h, OF n] tool_delete_first [of args D h, OF n]
  show "take 1 (new_calls h (CallTool P D name (Some args) h))
          = [FilesList (name_lookup ''undefined'')]"
    by (auto simp: CallTool_simps dest: take1_new_calls)
next
  assume a: "args ''filename'' = JUndefined \<and>
    name \<in> {''read_file_content'', ''append_file_content'', ''delete_from_file_content''}"
  then have n: "\<not> id_shape (ToString (args ''filename''))"
    by (simp add: not_id_shape_undefined)
  from a tool_read_first [of args P D h, OF n] tool_append_first [of args P D h, OF n]
    tool_delete_from_first [of args P D h, OF n]
  show "take 1 (new_calls h (CallTool P D name (Some args) h))
          = [FilesList (name_lookup ''undefined'')]"
    by (auto simp: CallTool_simps dest: take1_new_calls)
qed

theorem missing_keys_not_validated_witness:
  "CallTool sample_platform (sample_drive [notes_file] ''text/plain'' ''A'')
     ''append_file_content'' None [] = (Inl TypeError, []) \<and>
   CallTool sample_platform (sample_drive [notes_file] ''text/plain'' ''A'')
     ''search'' (Some no_args) [] = (Inl TypeError, []) \<and>
   CallTool sample_platform (sample_drive [notes_file] ''text/plain'' ''A'')
     ''upload_file_with_content'' (Some no_args) [] = (Inl TypeError, []) \<and>
   take 1 (new_calls [] (CallTool sample_platform
             (sample_drive [notes_file] ''text/plain'' ''A'') ''delete_file'' (Some no_args) []))
     = [FilesList (name_lookup ''undefined'')] \<and>
   take 1 (new_calls [] (CallTool sample_platform
             (sample_drive [notes_file] ''text/plain'' ''A'') ''append_file_content''
             (Some no_args) []))
     = [FilesList (name_lookup ''undefined'')]"
proof -
  have t: "''append_file_content'' \<in> fst ` set ListTools"
    by (simp add: ListTools_def)
  have u: "no_args ''query'' = JUndefined" "no_args ''content'' = JUndefined"
    "no_args ''fileId'' = JUndefined" "no_args ''filename'' = JUndefined"
    by (simp_all add: no_args_def)
  show ?thesis
    using missing_keys_not_validated [of "''append_file_content''" sample_platform
            "sample_drive [notes_file] ''text/plain'' ''A''" "[]" no_args]
          missing_keys_not_validated [of "''delete_file''" sample_platform
            "sample_drive [notes_file] ''text/plain'' ''A''" "[]" no_args]
          t u
    by simp
qed

text \<open>
  Claim C9 as stated (a missing required key fails before the provider is reached) fails:
  \<open>delete_file\<close> without \<open>fileId\<close> looks the name \<open>undefined\<close> up and
  deletes the file the lookup answers with.
\<close>

theorem missing_key_reaches_remote_counterexample:
  "CallTool sample_platform (sample_drive [notes_file] ''text/plain'' ''A'')
     ''delete_file'' (Some no_args) []
   = (Inr (DeleteDone ''id-of-notes''),
      [FilesList (name_lookup ''undefined''), FilesDelete ''id-of-notes''])"
  by (simp add: CallTool_simps tool_delete_def no_args_def resolve_sample_name
      sample_drive_simps remote_simps notes_file_def)

end
